theory Spec2Isabelle
  imports Main
begin

section \<open>Data model of \<^verbatim>\<open>Terminal.ts\<close>\<close>

text \<open>
  Modelled from the spec: the enumeration \<^verbatim>\<open>Color\<close> is imported from \<^verbatim>\<open>../Colors\<close>, which is
  not among the sources. Its nine members are the ones the two \<^verbatim>\<open>switch\<close> statements of
  \<^verbatim>\<open>_serializeFormattableTextSegments\<close> name.
\<close>

datatype Color = Black | Red | Green | Yellow | Blue | Magenta | Cyan | White | Gray

text \<open>
  Modelled from the spec: the interface \<^verbatim>\<open>IColorableSequence\<close> (also from \<^verbatim>\<open>../Colors\<close>) is a
  record with a mandatory \<^verbatim>\<open>text\<close> and two optional colours. An absent field
  (\<^verbatim>\<open>undefined\<close>) is \<open>None\<close>.
\<close>

record IColorableSequence =
  "text" :: string
  foregroundColor :: "Color option"
  backgroundColor :: "Color option"

text \<open>A message part has the TypeScript type \<^verbatim>\<open>string | IColorableSequence\<close>.\<close>

datatype segment = Str string | Seq IColorableSequence

text \<open>
  Modelled from the spec: the enumeration \<^verbatim>\<open>Severity\<close> is imported from
  \<^verbatim>\<open>./ITerminalProvider\<close>; the only members the source uses are \<^verbatim>\<open>log\<close> and \<^verbatim>\<open>warn\<close>.
\<close>

datatype Severity = log | warn

text \<open>
  Modelled from the spec: an \<^verbatim>\<open>ITerminalProvider\<close> exposes the flag \<^verbatim>\<open>supportsColor\<close> and the
  method \<^verbatim>\<open>write(text, severity)\<close>. The field \<open>ident\<close> stands for the identity of the
  object, which is what the JavaScript \<^verbatim>\<open>Set\<close> compares. A call of the provider's
  \<^verbatim>\<open>write\<close> is recorded as an event; the provider is assumed to return from it.
\<close>

record ITerminalProvider =
  ident :: nat
  supportsColor :: bool

text \<open>
  What a call does to the outside is a list of events, oldest first: a run of
  \<^verbatim>\<open>_serializeFormattableTextSegments\<close> with the given \<^verbatim>\<open>withColor\<close> flag, or a call of a
  provider's \<^verbatim>\<open>write\<close>.
\<close>

datatype event =
  Serialized bool
| ProviderWrite ITerminalProvider string Severity

text \<open>
  The object: the field \<^verbatim>\<open>_providers\<close> (a \<^verbatim>\<open>Set\<close>, which iterates in insertion order, so
  a list without duplicates), the field \<^verbatim>\<open>verboseEnabled\<close>, and the events so far.
\<close>

record state =
  providers :: "ITerminalProvider list"
  verboseEnabled :: bool
  trace :: "event list"

text \<open>
  The constant \<^verbatim>\<open>EOL\<close> of the Node.js module \<^verbatim>\<open>os\<close>: a line feed on POSIX systems, carriage
  return and line feed on Windows.
\<close>

datatype platform = Posix | Win32

definition EOL :: "platform \<Rightarrow> string" where
  "EOL pf = (case pf of Posix \<Rightarrow> [CHR 0x0A] | Win32 \<Rightarrow> [CHR 0x0D, CHR 0x0A])"

section \<open>Construction and registration\<close>

definition Terminal :: "ITerminalProvider \<Rightarrow> bool \<Rightarrow> state" where
  "Terminal provider verbose = \<lparr>providers = [provider], verboseEnabled = verbose, trace = []\<rparr>"

definition registerProvider :: "ITerminalProvider \<Rightarrow> state \<Rightarrow> state" where
  "registerProvider provider s =
     (if provider \<in> set (providers s) then s
      else s\<lparr>providers := providers s @ [provider]\<rparr>)"

definition unregisterProvider :: "ITerminalProvider \<Rightarrow> state \<Rightarrow> state" where
  "unregisterProvider provider s =
     (if provider \<in> set (providers s)
      then s\<lparr>providers := removeAll provider (providers s)\<rparr>
      else s)"

section \<open>Serialization\<close>

text \<open>\<^verbatim>\<open>Number.prototype.toString\<close> on a non-negative integer: its decimal digits.\<close>

fun toString :: "nat \<Rightarrow> string" where
  "toString n =
     (if n < 10 then [''0123456789'' ! n]
      else toString (n div 10) @ [''0123456789'' ! (n mod 10)])"

declare toString.simps [simp del]

text \<open>The first \<^verbatim>\<open>switch\<close>: on \<^verbatim>\<open>segment.foregroundColor\<close>.\<close>

fun switchForeground :: "Color option \<Rightarrow> nat list \<times> nat list \<Rightarrow> nat list \<times> nat list" where
  "switchForeground (Some Black) (startColorCodes, endColorCodes) =
     (startColorCodes @ [30], endColorCodes @ [39])"
| "switchForeground (Some Red) (startColorCodes, endColorCodes) =
     (startColorCodes @ [31], endColorCodes @ [39])"
| "switchForeground (Some Green) (startColorCodes, endColorCodes) =
     (startColorCodes @ [32], endColorCodes @ [39])"
| "switchForeground (Some Yellow) (startColorCodes, endColorCodes) =
     (startColorCodes @ [33], endColorCodes @ [39])"
| "switchForeground (Some Blue) (startColorCodes, endColorCodes) =
     (startColorCodes @ [34], endColorCodes @ [39])"
| "switchForeground (Some Magenta) (startColorCodes, endColorCodes) =
     (startColorCodes @ [35], endColorCodes @ [39])"
| "switchForeground (Some Cyan) (startColorCodes, endColorCodes) =
     (startColorCodes @ [36], endColorCodes @ [39])"
| "switchForeground (Some White) (startColorCodes, endColorCodes) =
     (startColorCodes @ [37], endColorCodes @ [39])"
| "switchForeground (Some Gray) (startColorCodes, endColorCodes) =
     (startColorCodes @ [90], endColorCodes @ [39])"
| "switchForeground None (startColorCodes, endColorCodes) =
     (startColorCodes, endColorCodes)"

text \<open>The second \<^verbatim>\<open>switch\<close>: on \<^verbatim>\<open>segment.backgroundColor\<close>.\<close>

fun switchBackground :: "Color option \<Rightarrow> nat list \<times> nat list \<Rightarrow> nat list \<times> nat list" where
  "switchBackground (Some Black) (startColorCodes, endColorCodes) =
     (startColorCodes @ [40], endColorCodes @ [49])"
| "switchBackground (Some Red) (startColorCodes, endColorCodes) =
     (startColorCodes @ [41], endColorCodes @ [49])"
| "switchBackground (Some Green) (startColorCodes, endColorCodes) =
     (startColorCodes @ [42], endColorCodes @ [49])"
| "switchBackground (Some Yellow) (startColorCodes, endColorCodes) =
     (startColorCodes @ [43], endColorCodes @ [49])"
| "switchBackground (Some Blue) (startColorCodes, endColorCodes) =
     (startColorCodes @ [44], endColorCodes @ [49])"
| "switchBackground (Some Magenta) (startColorCodes, endColorCodes) =
     (startColorCodes @ [45], endColorCodes @ [49])"
| "switchBackground (Some Cyan) (startColorCodes, endColorCodes) =
     (startColorCodes @ [46], endColorCodes @ [49])"
| "switchBackground (Some White) (startColorCodes, endColorCodes) =
     (startColorCodes @ [47], endColorCodes @ [49])"
| "switchBackground (Some Gray) (startColorCodes, endColorCodes) =
     (startColorCodes @ [100], endColorCodes @ [49])"
| "switchBackground None (startColorCodes, endColorCodes) =
     (startColorCodes, endColorCodes)"

text \<open>
  The two inner \<^verbatim>\<open>for\<close> loops push, for each code of a list taken in the given order, the
  three strings \<^verbatim>\<open>'\u001b['\<close>, \<^verbatim>\<open>code.toString()\<close> and \<^verbatim>\<open>'m'\<close>. The second loop runs from the
  last index down to 0, so it is \<open>pushCodes\<close> on the reversed list.
\<close>

fun pushCodes :: "nat list \<Rightarrow> string list \<Rightarrow> string list" where
  "pushCodes [] segmentsToJoin = segmentsToJoin"
| "pushCodes (code # codes) segmentsToJoin =
     pushCodes codes (segmentsToJoin @ [[CHR 0x1B, CHR ''[''], toString code, ''m''])"

text \<open>One round of the outer \<^verbatim>\<open>for\<close> loop.\<close>

definition pushSegment :: "bool \<Rightarrow> segment \<Rightarrow> string list \<Rightarrow> string list" where
  "pushSegment withColor segment segmentsToJoin =
     (if withColor then
        (let segment' = (case segment of
                           Str str \<Rightarrow> \<lparr>text = str, foregroundColor = None, backgroundColor = None\<rparr>
                         | Seq sq \<Rightarrow> sq);
             (startColorCodes, endColorCodes) =
                switchBackground (backgroundColor segment')
                  (switchForeground (foregroundColor segment') ([], []))
         in pushCodes (rev endColorCodes)
              (pushCodes startColorCodes segmentsToJoin @ [text segment']))
      else segmentsToJoin @ [case segment of Str str \<Rightarrow> str | Seq sq \<Rightarrow> text sq])"

fun serializeLoop :: "bool \<Rightarrow> segment list \<Rightarrow> string list \<Rightarrow> string list" where
  "serializeLoop withColor [] segmentsToJoin = segmentsToJoin"
| "serializeLoop withColor (segment # segments) segmentsToJoin =
     serializeLoop withColor segments (pushSegment withColor segment segmentsToJoin)"

text \<open>\<^verbatim>\<open>_serializeFormattableTextSegments\<close>; \<^verbatim>\<open>join('')\<close> is \<open>concat\<close>.\<close>

definition serializeFormattableTextSegments :: "segment list \<Rightarrow> bool \<Rightarrow> string" where
  "serializeFormattableTextSegments segments withColor =
     concat (serializeLoop withColor segments [])"

section \<open>Fan-out\<close>

text \<open>
  The local variables \<^verbatim>\<open>withColor\<close> and \<^verbatim>\<open>withoutColor\<close> start out \<^verbatim>\<open>undefined\<close> (\<open>None\<close>).
  The test \<^verbatim>\<open>withColor || (withColor = ...)\<close> is on truthiness: \<^verbatim>\<open>undefined\<close> and the empty
  string are both falsy.
\<close>

definition truthy :: "string option \<Rightarrow> bool" where
  "truthy v = (case v of None \<Rightarrow> False | Some str \<Rightarrow> str \<noteq> [])"

definition emit :: "event \<Rightarrow> state \<Rightarrow> state" where
  "emit e s = s\<lparr>trace := trace s @ [e]\<rparr>"

text \<open>
  The callback given to \<^verbatim>\<open>this._providers.forEach\<close>, on the two local variables and the
  state.
\<close>

definition forEachCallback ::
  "segment list \<Rightarrow> Severity \<Rightarrow> ITerminalProvider \<Rightarrow>
   string option \<times> string option \<times> state \<Rightarrow> string option \<times> string option \<times> state" where
  "forEachCallback segments severity provider locals =
     (case locals of (withColor, withoutColor, s) \<Rightarrow>
        if supportsColor provider then
          (if truthy withColor
           then (withColor, withoutColor, emit (ProviderWrite provider (the withColor) severity) s)
           else (let textToWrite = serializeFormattableTextSegments segments True
                 in (Some textToWrite, withoutColor,
                     emit (ProviderWrite provider textToWrite severity) (emit (Serialized True) s))))
        else
          (if truthy withoutColor
           then (withColor, withoutColor, emit (ProviderWrite provider (the withoutColor) severity) s)
           else (let textToWrite = serializeFormattableTextSegments segments False
                 in (withColor, Some textToWrite,
                     emit (ProviderWrite provider textToWrite severity) (emit (Serialized False) s)))))"

definition writeSegmentsToProviders :: "segment list \<Rightarrow> Severity \<Rightarrow> state \<Rightarrow> state" where
  "writeSegmentsToProviders segments severity s =
     snd (snd (fold (forEachCallback segments severity) (providers s) (None, None, s)))"

section \<open>The public write methods\<close>

definition "write" :: "platform \<Rightarrow> segment list \<Rightarrow> state \<Rightarrow> state" where
  "write pf messageParts s =
     writeSegmentsToProviders
       (messageParts @ [Seq \<lparr>text = EOL pf, foregroundColor = None, backgroundColor = None\<rparr>])
       log s"

definition writeLine :: "platform \<Rightarrow> segment list \<Rightarrow> state \<Rightarrow> state" where
  "writeLine pf messageParts s =
     write pf
       (messageParts @ [Seq \<lparr>text = EOL pf, foregroundColor = None, backgroundColor = None\<rparr>]) s"

text \<open>
  The object spread \<^verbatim>\<open>{ ...(typeof part === 'string' ? { text: part } : part),
  foregroundColor: c }\<close> builds a new record.
\<close>

definition spreadWithForeground :: "Color \<Rightarrow> segment \<Rightarrow> segment" where
  "spreadWithForeground c part =
     Seq ((case part of
             Str str \<Rightarrow> \<lparr>text = str, foregroundColor = None, backgroundColor = None\<rparr>
           | Seq sq \<Rightarrow> sq)\<lparr>foregroundColor := Some c\<rparr>)"

definition writeWarning :: "segment list \<Rightarrow> state \<Rightarrow> state" where
  "writeWarning messageParts s =
     writeSegmentsToProviders (map (spreadWithForeground Yellow) messageParts) warn s"

definition writeWarningLine :: "platform \<Rightarrow> segment list \<Rightarrow> state \<Rightarrow> state" where
  "writeWarningLine pf messageParts s =
     writeSegmentsToProviders
       (map (spreadWithForeground Yellow) messageParts
        @ [Seq \<lparr>text = EOL pf, foregroundColor = None, backgroundColor = None\<rparr>])
       warn s"

definition writeError :: "segment list \<Rightarrow> state \<Rightarrow> state" where
  "writeError messageParts s =
     writeSegmentsToProviders (map (spreadWithForeground Red) messageParts) warn s"

definition writeErrorLine :: "platform \<Rightarrow> segment list \<Rightarrow> state \<Rightarrow> state" where
  "writeErrorLine pf messageParts s =
     writeSegmentsToProviders
       (map (spreadWithForeground Yellow) messageParts
        @ [Seq \<lparr>text = EOL pf, foregroundColor = None, backgroundColor = None\<rparr>])
       warn s"

definition writeVerbose :: "segment list \<Rightarrow> state \<Rightarrow> state" where
  "writeVerbose messageParts s =
     (if verboseEnabled s then writeSegmentsToProviders messageParts log s else s)"

text \<open>
  \<^verbatim>\<open>writeVerboseLine\<close> calls itself. A call that does not return has the value \<open>None\<close>.
\<close>

partial_function (option) writeVerboseLine ::
  "platform \<Rightarrow> segment list \<Rightarrow> state \<Rightarrow> state option" where
  "writeVerboseLine pf messageParts s =
     writeVerboseLine pf
       (messageParts @ [Seq \<lparr>text = EOL pf, foregroundColor = None, backgroundColor = None\<rparr>]) s"

text \<open>A call of any of the eight public write methods; \<open>Some\<close> is a call that returns.\<close>

datatype operation =
  Write | WriteLine | WriteWarning | WriteWarningLine
| WriteError | WriteErrorLine | WriteVerbose | WriteVerboseLine

fun call :: "platform \<Rightarrow> operation \<Rightarrow> segment list \<Rightarrow> state \<Rightarrow> state option" where
  "call pf Write messageParts s = Some (write pf messageParts s)"
| "call pf WriteLine messageParts s = Some (writeLine pf messageParts s)"
| "call pf WriteWarning messageParts s = Some (writeWarning messageParts s)"
| "call pf WriteWarningLine messageParts s = Some (writeWarningLine pf messageParts s)"
| "call pf WriteError messageParts s = Some (writeError messageParts s)"
| "call pf WriteErrorLine messageParts s = Some (writeErrorLine pf messageParts s)"
| "call pf WriteVerbose messageParts s = Some (writeVerbose messageParts s)"
| "call pf WriteVerboseLine messageParts s = writeVerboseLine pf messageParts s"

section \<open>Reading a trace\<close>

text \<open>What one provider was given, in order.\<close>

fun received :: "ITerminalProvider \<Rightarrow> event list \<Rightarrow> (string \<times> Severity) list" where
  "received p [] = []"
| "received p (Serialized b # es) = received p es"
| "received p (ProviderWrite q str sev # es) =
     (if q = p then (str, sev) # received p es else received p es)"

text \<open>All calls of a provider's \<^verbatim>\<open>write\<close>, in order.\<close>

fun writes :: "event list \<Rightarrow> (ITerminalProvider \<times> string \<times> Severity) list" where
  "writes [] = []"
| "writes (Serialized b # es) = writes es"
| "writes (ProviderWrite q str sev # es) = (q, str, sev) # writes es"

text \<open>How often the segments were serialized with the given \<^verbatim>\<open>withColor\<close> flag.\<close>

definition serializations :: "bool \<Rightarrow> event list \<Rightarrow> nat" where
  "serializations b es = count_list es (Serialized b)"

text \<open>Example objects: one plain provider; one of each kind; two coloured and one plain.\<close>

definition plainSink :: ITerminalProvider where
  "plainSink = \<lparr>ident = 0, supportsColor = False\<rparr>"

definition colorSink :: ITerminalProvider where
  "colorSink = \<lparr>ident = 1, supportsColor = True\<rparr>"

definition colorSink2 :: ITerminalProvider where
  "colorSink2 = \<lparr>ident = 2, supportsColor = True\<rparr>"

definition oneSink :: state where
  "oneSink = Terminal plainSink True"

definition twoSinks :: state where
  "twoSinks = registerProvider plainSink (Terminal colorSink False)"

definition threeSinks :: state where
  "threeSinks = registerProvider plainSink (registerProvider colorSink2 (Terminal colorSink False))"

text \<open>The text of a message part, its background colour, and having no colour at all.\<close>

fun segmentText :: "segment \<Rightarrow> string" where
  "segmentText (Str str) = str"
| "segmentText (Seq sq) = text sq"

fun segmentBackground :: "segment \<Rightarrow> Color option" where
  "segmentBackground (Str str) = None"
| "segmentBackground (Seq sq) = backgroundColor sq"

fun uncolored :: "segment \<Rightarrow> bool" where
  "uncolored (Str str) = True"
| "uncolored (Seq sq) = (foregroundColor sq = None \<and> backgroundColor sq = None)"

text \<open>
  During a fan-out each of the two local variables is either still \<^verbatim>\<open>undefined\<close> or holds
  the rendering of the segments for its flag.
\<close>

definition cached :: "segment list \<Rightarrow> string option \<Rightarrow> string option \<Rightarrow> bool" where
  "cached segments withColor withoutColor =
     ((withColor = None \<or> withColor = Some (serializeFormattableTextSegments segments True)) \<and>
      (withoutColor = None \<or>
       withoutColor = Some (serializeFormattableTextSegments segments False)))"

section \<open>Caller-supplied objects\<close>

text \<open>
  An \<^verbatim>\<open>IColorableSequence\<close> that the caller passes is an object, and the caller keeps its
  reference. The store is the list of all objects allocated so far: a reference is an
  index into it, and a new object goes at the end. A message part as the caller passes it is
  a primitive string or a reference to an object. JavaScript has no dangling reference:
  \<open>validPart\<close> says that a reference points into the store.
\<close>

type_synonym store = "IColorableSequence list"

datatype part = PString string | PObject nat

definition allocate :: "IColorableSequence \<Rightarrow> store \<Rightarrow> nat \<times> store" where
  "allocate obj h = (length h, h @ [obj])"

fun validPart :: "store \<Rightarrow> part \<Rightarrow> bool" where
  "validPart h (PString str) = True"
| "validPart h (PObject a) = (a < length h)"

text \<open>Reading a message part: the string, or the fields of the object as they are now.\<close>

fun load :: "store \<Rightarrow> part \<Rightarrow> segment" where
  "load h (PString str) = Str str"
| "load h (PObject a) = Seq (h ! a)"

text \<open>
  The callback of \<^verbatim>\<open>messageParts.map\<close> in \<^verbatim>\<open>writeError\<close>, on the store. For a string the
  object literal \<^verbatim>\<open>{ text: part }\<close> is a new object; the spread \<^verbatim>\<open>{ ...x, foregroundColor: c }\<close>
  then copies the fields of \<^verbatim>\<open>x\<close> into another new object and sets its foreground colour.
  No field of an existing object is assigned.
\<close>

definition spreadObject :: "Color \<Rightarrow> part \<Rightarrow> store \<Rightarrow> part \<times> store" where
  "spreadObject c part h =
     (case part of
        PString str \<Rightarrow>
          (let (tmp, h1) =
                 allocate \<lparr>text = str, foregroundColor = None, backgroundColor = None\<rparr> h;
               (new, h2) = allocate ((h1 ! tmp)\<lparr>foregroundColor := Some c\<rparr>) h1
           in (PObject new, h2))
      | PObject a \<Rightarrow>
          (let (new, h1) = allocate ((h ! a)\<lparr>foregroundColor := Some c\<rparr>) h
           in (PObject new, h1)))"

text \<open>\<^verbatim>\<open>Array.prototype.map\<close> with that callback: a new array, left to right.\<close>

fun mapSpread :: "Color \<Rightarrow> part list \<Rightarrow> store \<Rightarrow> part list \<times> store" where
  "mapSpread c [] h = ([], h)"
| "mapSpread c (part # parts) h =
     (let (part', h1) = spreadObject c part h;
          (parts', h2) = mapSpread c parts h1
      in (part' # parts', h2))"

text \<open>
  \<^verbatim>\<open>writeError\<close> on the store. \<^verbatim>\<open>_writeSegmentsToProviders\<close> and
  \<^verbatim>\<open>_serializeFormattableTextSegments\<close> read the fields \<^verbatim>\<open>text\<close>, \<^verbatim>\<open>foregroundColor\<close> and
  \<^verbatim>\<open>backgroundColor\<close> of the segments they are given and assign to no field
  (\<^verbatim>\<open>segment = { text: segment }\<close> rebinds a local variable), so they are the functions above
  on the segments as read from the store after the \<^verbatim>\<open>map\<close>.
\<close>

definition writeError_store :: "part list \<Rightarrow> store \<times> state \<Rightarrow> store \<times> state" where
  "writeError_store messageParts hs =
     (case hs of (h, s) \<Rightarrow>
        (let (segments, h') = mapSpread Red messageParts h
         in (h', writeSegmentsToProviders (map (load h') segments) warn s)))"

text \<open>An example object of the caller: green text on blue.\<close>

definition greenOnBlue :: IColorableSequence where
  "greenOnBlue = \<lparr>text = ''b'', foregroundColor = Some Green, backgroundColor = Some Blue\<rparr>"

section \<open>Serialization: the loops unfolded\<close>

lemma pushCodes_append: "pushCodes codes acc = acc @ pushCodes codes []"
proof (induction codes arbitrary: acc)
  case Nil
  show ?case by simp
next
  case (Cons c cs)
  show ?case
    using Cons.IH [of "acc @ [[CHR 0x1B, CHR ''[''], toString c, ''m'']"]
      Cons.IH [of "[[CHR 0x1B, CHR ''[''], toString c, ''m'']"]
    by simp
qed

lemma pushSegment_append: "pushSegment wc seg acc = acc @ pushSegment wc seg []"
  unfolding pushSegment_def
  by (simp add: Let_def split: prod.splits segment.splits)
     (metis pushCodes_append append.assoc)

lemma serializeLoop_append: "serializeLoop wc segs acc = acc @ serializeLoop wc segs []"
proof (induction segs arbitrary: acc)
  case Nil
  show ?case by simp
next
  case (Cons g gs)
  show ?case
    using Cons.IH [of "pushSegment wc g acc"] Cons.IH [of "pushSegment wc g []"]
      pushSegment_append [of wc g acc]
    by simp
qed

lemma serialize_Nil: "serializeFormattableTextSegments [] wc = []"
  by (simp add: serializeFormattableTextSegments_def)

lemma serialize_Cons:
  "serializeFormattableTextSegments (g # gs) wc =
     concat (pushSegment wc g []) @ serializeFormattableTextSegments gs wc"
  using serializeLoop_append [of wc gs "pushSegment wc g []"]
  by (simp add: serializeFormattableTextSegments_def)

lemma serialize_append:
  "serializeFormattableTextSegments (xs @ ys) wc =
     serializeFormattableTextSegments xs wc @ serializeFormattableTextSegments ys wc"
  by (induction xs) (simp_all add: serialize_Nil serialize_Cons)

section \<open>Traces\<close>

lemma writes_append: "writes (xs @ ys) = writes xs @ writes ys"
  by (induction xs rule: writes.induct) simp_all

lemma received_append: "received p (xs @ ys) = received p xs @ received p ys"
  by (induction p xs rule: received.induct) simp_all

lemma serializations_append:
  "serializations b (xs @ ys) = serializations b xs + serializations b ys"
  by (induction xs) (simp_all add: serializations_def)

section \<open>The fan-out, one provider at a time\<close>

lemma callback_frame:
  assumes "forEachCallback segs sev p (wc, woc, s) = (wc', woc', s')"
  shows "providers s' = providers s \<and> verboseEnabled s' = verboseEnabled s"
  using assms
  by (auto simp: forEachCallback_def emit_def Let_def split: if_splits)

lemma fold_frame:
  "providers (snd (snd (fold (forEachCallback segs sev) ps (wc, woc, s)))) = providers s \<and>
   verboseEnabled (snd (snd (fold (forEachCallback segs sev) ps (wc, woc, s)))) = verboseEnabled s"
proof (induction ps arbitrary: wc woc s)
  case Nil
  show ?case by simp
next
  case (Cons p ps)
  obtain wc' woc' s' where step: "forEachCallback segs sev p (wc, woc, s) = (wc', woc', s')"
    by (cases "forEachCallback segs sev p (wc, woc, s)") auto
  with Cons.IH [of wc' woc' s'] callback_frame [OF step] show ?case by simp
qed

lemma callback_step:
  assumes "cached segs wc woc"
    and "forEachCallback segs sev p (wc, woc, s) = (wc', woc', s')"
  shows "cached segs wc' woc'"
    and "writes (trace s') =
           writes (trace s) @ [(p, serializeFormattableTextSegments segs (supportsColor p), sev)]"
    and "received q (trace s') =
           received q (trace s) @
             (if p = q then [(serializeFormattableTextSegments segs (supportsColor p), sev)]
              else [])"
  using assms
  by (auto simp: cached_def forEachCallback_def emit_def Let_def truthy_def writes_append
        received_append split: if_splits)

lemma fold_writes:
  assumes "cached segs wc woc"
  shows "writes (trace (snd (snd (fold (forEachCallback segs sev) ps (wc, woc, s))))) =
           writes (trace s) @
             map (\<lambda>p. (p, serializeFormattableTextSegments segs (supportsColor p), sev)) ps"
  using assms
proof (induction ps arbitrary: wc woc s)
  case Nil
  show ?case by simp
next
  case (Cons p ps)
  obtain wc' woc' s' where step: "forEachCallback segs sev p (wc, woc, s) = (wc', woc', s')"
    by (cases "forEachCallback segs sev p (wc, woc, s)") auto
  from callback_step(1,2) [OF Cons.prems step] Cons.IH [of wc' woc' s'] step
  show ?case by simp
qed

lemma fold_received:
  assumes "cached segs wc woc" and "distinct ps"
  shows "received q (trace (snd (snd (fold (forEachCallback segs sev) ps (wc, woc, s))))) =
           received q (trace s) @
             (if q \<in> set ps then [(serializeFormattableTextSegments segs (supportsColor q), sev)]
              else [])"
  using assms
proof (induction ps arbitrary: wc woc s)
  case Nil
  show ?case by simp
next
  case (Cons p ps)
  obtain wc' woc' s' where step: "forEachCallback segs sev p (wc, woc, s) = (wc', woc', s')"
    by (cases "forEachCallback segs sev p (wc, woc, s)") auto
  from Cons.prems have d: "distinct ps" and np: "p \<notin> set ps" by simp_all
  note c = callback_step(1) [OF Cons.prems(1) step]
  from callback_step(3) [OF Cons.prems(1) step, of q] Cons.IH [of wc' woc' s', OF c d] step np
  show ?case by auto
qed

lemma callback_count:
  assumes "forEachCallback segs sev p (wc, woc, s) = (wc', woc', s')"
  shows "serializations b (trace s') =
           serializations b (trace s) +
             (if supportsColor p = b \<and> \<not> truthy (if b then wc else woc) then 1 else 0)"
    and "supportsColor p \<Longrightarrow>
           woc' = woc \<and>
           wc' = (if truthy wc then wc else Some (serializeFormattableTextSegments segs True))"
    and "\<not> supportsColor p \<Longrightarrow>
           wc' = wc \<and>
           woc' = (if truthy woc then woc else Some (serializeFormattableTextSegments segs False))"
  using assms
  by (auto simp: forEachCallback_def emit_def Let_def serializations_def split: if_splits)

lemma fold_count_True:
  assumes "serializeFormattableTextSegments segs True \<noteq> []"
  shows "serializations True
           (trace (snd (snd (fold (forEachCallback segs sev) ps (wc, woc, s))))) =
         serializations True (trace s) +
           (if \<not> truthy wc \<and> (\<exists>p\<in>set ps. supportsColor p) then 1 else 0)"
proof (induction ps arbitrary: wc woc s)
  case Nil
  show ?case by simp
next
  case (Cons p ps)
  obtain wc' woc' s' where step: "forEachCallback segs sev p (wc, woc, s) = (wc', woc', s')"
    by (cases "forEachCallback segs sev p (wc, woc, s)") auto
  show ?case
  proof (cases "supportsColor p")
    case True
    with callback_count(1) [OF step, of True] callback_count(2) [OF step] assms
      Cons.IH [of wc' woc' s'] step
    show ?thesis by (auto simp: truthy_def)
  next
    case False
    with callback_count(1) [OF step, of True] callback_count(3) [OF step] assms
      Cons.IH [of wc' woc' s'] step
    show ?thesis by (auto simp: truthy_def)
  qed
qed

lemma fold_count_False:
  assumes "serializeFormattableTextSegments segs False \<noteq> []"
  shows "serializations False
           (trace (snd (snd (fold (forEachCallback segs sev) ps (wc, woc, s))))) =
         serializations False (trace s) +
           (if \<not> truthy woc \<and> (\<exists>p\<in>set ps. \<not> supportsColor p) then 1 else 0)"
proof (induction ps arbitrary: wc woc s)
  case Nil
  show ?case by simp
next
  case (Cons p ps)
  obtain wc' woc' s' where step: "forEachCallback segs sev p (wc, woc, s) = (wc', woc', s')"
    by (cases "forEachCallback segs sev p (wc, woc, s)") auto
  show ?case
  proof (cases "supportsColor p")
    case True
    with callback_count(1) [OF step, of False] callback_count(2) [OF step] assms
      Cons.IH [of wc' woc' s'] step
    show ?thesis by (auto simp: truthy_def)
  next
    case False
    with callback_count(1) [OF step, of False] callback_count(3) [OF step] assms
      Cons.IH [of wc' woc' s'] step
    show ?thesis by (auto simp: truthy_def)
  qed
qed

section \<open>The fan-out as a whole\<close>

lemma fanout_frame:
  "providers (writeSegmentsToProviders segs sev s) = providers s \<and>
   verboseEnabled (writeSegmentsToProviders segs sev s) = verboseEnabled s"
  unfolding writeSegmentsToProviders_def by (rule fold_frame)

lemma fanout_writes:
  "writes (trace (writeSegmentsToProviders segs sev s)) =
     writes (trace s) @
       map (\<lambda>p. (p, serializeFormattableTextSegments segs (supportsColor p), sev)) (providers s)"
  unfolding writeSegmentsToProviders_def by (rule fold_writes) (simp add: cached_def)

lemma fanout_received:
  assumes "distinct (providers s)" and "p \<in> set (providers s)"
  shows "received p (trace (writeSegmentsToProviders segs sev s)) =
           received p (trace s) @ [(serializeFormattableTextSegments segs (supportsColor p), sev)]"
  unfolding writeSegmentsToProviders_def
  using fold_received [of segs None None "providers s" p sev s] assms
  by (simp add: cached_def)

lemma fanout_count_True:
  assumes "serializeFormattableTextSegments segs True \<noteq> []"
    and "\<exists>p\<in>set (providers s). supportsColor p"
  shows "serializations True (trace (writeSegmentsToProviders segs sev s)) =
           serializations True (trace s) + 1"
  unfolding writeSegmentsToProviders_def
  using fold_count_True [OF assms(1), of sev "providers s" None None s] assms(2)
  by (simp add: truthy_def)

lemma fanout_count_False:
  assumes "serializeFormattableTextSegments segs False \<noteq> []"
    and "\<exists>p\<in>set (providers s). \<not> supportsColor p"
  shows "serializations False (trace (writeSegmentsToProviders segs sev s)) =
           serializations False (trace s) + 1"
  unfolding writeSegmentsToProviders_def
  using fold_count_False [OF assms(1), of sev "providers s" None None s] assms(2)
  by (simp add: truthy_def)

section \<open>The set of providers has no duplicates\<close>

lemma Terminal_distinct: "distinct (providers (Terminal provider verbose))"
  by (simp add: Terminal_def)

lemma registerProvider_distinct:
  "distinct (providers s) \<Longrightarrow> distinct (providers (registerProvider provider s))"
  by (simp add: registerProvider_def)

lemma unregisterProvider_distinct:
  "distinct (providers s) \<Longrightarrow> distinct (providers (unregisterProvider provider s))"
  by (simp add: unregisterProvider_def distinct_removeAll)

lemma unregisterProvider_removes:
  "provider \<notin> set (providers (unregisterProvider provider s))"
  by (simp add: unregisterProvider_def)

lemma EOL_nonempty: "EOL pf \<noteq> []"
  by (cases pf) (simp_all add: EOL_def)

lemma serialize_EOL:
  "serializeFormattableTextSegments
     [Seq \<lparr>text = EOL pf, foregroundColor = None, backgroundColor = None\<rparr>] wc = EOL pf"
  by (simp add: serializeFormattableTextSegments_def pushSegment_def)

section \<open>Helper facts about the public methods\<close>

lemma writeVerboseLine_not_Some:
  assumes "writeVerboseLine pf messageParts s = Some y"
  shows False
  by (rule writeVerboseLine.raw_induct [where P = "\<lambda>_ _ _ _. False", OF _ assms]) blast

lemma writeVerboseLine_None: "writeVerboseLine pf messageParts s = None"
  using writeVerboseLine_not_Some [of pf messageParts s]
  by (cases "writeVerboseLine pf messageParts s") auto

lemma other_operations_return:
  "op \<noteq> WriteVerboseLine \<Longrightarrow> \<exists>s'. call pf op messageParts s = Some s'"
  by (cases op) simp_all

lemma pushSegment_plain: "concat (pushSegment False g []) = segmentText g"
  by (cases g) (simp_all add: pushSegment_def)

lemma pushSegment_uncolored: "uncolored g \<Longrightarrow> concat (pushSegment True g []) = segmentText g"
  by (cases g) (simp_all add: pushSegment_def)

lemma serialize_plain:
  "serializeFormattableTextSegments segments False = concat (map segmentText segments)"
  by (induction segments) (simp_all add: serialize_Nil serialize_Cons pushSegment_plain)

lemma write_writes:
  "writes (trace (write pf messageParts s)) =
     writes (trace s) @
       map (\<lambda>p. (p, serializeFormattableTextSegments messageParts (supportsColor p) @ EOL pf, log))
         (providers s)"
  by (simp add: write_def fanout_writes serialize_append serialize_EOL)

lemma writeVerbose_disabled: "\<not> verboseEnabled s \<Longrightarrow> writeVerbose messageParts s = s"
  by (simp add: writeVerbose_def)

lemma writeVerbose_enabled:
  "verboseEnabled s \<Longrightarrow>
     writes (trace (writeVerbose messageParts s)) =
       writes (trace s) @
         map (\<lambda>p. (p, serializeFormattableTextSegments messageParts (supportsColor p), log))
           (providers s)"
  by (simp add: writeVerbose_def fanout_writes)

lemma spreadWithForeground_eq:
  "spreadWithForeground c part =
     Seq \<lparr>text = segmentText part, foregroundColor = Some c,
          backgroundColor = segmentBackground part\<rparr>"
  by (cases part) (simp_all add: spreadWithForeground_def)

lemma serialize_with_EOL_nonempty:
  "serializeFormattableTextSegments
     (segs @ [Seq \<lparr>text = EOL pf, foregroundColor = None, backgroundColor = None\<rparr>]) wc \<noteq> []"
  by (simp add: serialize_append serialize_EOL EOL_nonempty)

lemma call_is_one_fanout:
  assumes "op \<noteq> WriteVerboseLine" and "op = WriteVerbose \<longrightarrow> verboseEnabled s"
  shows "\<exists>segments severity.
           call pf op messageParts s = Some (writeSegmentsToProviders segments severity s) \<and>
           (op \<in> {Write, WriteLine, WriteWarningLine, WriteErrorLine} \<longrightarrow>
              serializeFormattableTextSegments segments True \<noteq> [] \<and>
              serializeFormattableTextSegments segments False \<noteq> [])"
proof (cases op)
  case Write
  then show ?thesis
    by (intro exI [of _ "messageParts @
            [Seq \<lparr>text = EOL pf, foregroundColor = None, backgroundColor = None\<rparr>]"]
          exI [of _ log])
       (simp add: write_def serialize_with_EOL_nonempty)
next
  case WriteLine
  then show ?thesis
    by (intro exI [of _ "(messageParts @
            [Seq \<lparr>text = EOL pf, foregroundColor = None, backgroundColor = None\<rparr>]) @
            [Seq \<lparr>text = EOL pf, foregroundColor = None, backgroundColor = None\<rparr>]"]
          exI [of _ log])
       (simp only: call.simps writeLine_def write_def serialize_with_EOL_nonempty, simp)
next
  case WriteWarning
  then show ?thesis
    by (intro exI [of _ "map (spreadWithForeground Yellow) messageParts"] exI [of _ warn])
       (simp add: writeWarning_def)
next
  case WriteWarningLine
  then show ?thesis
    by (intro exI [of _ "map (spreadWithForeground Yellow) messageParts @
            [Seq \<lparr>text = EOL pf, foregroundColor = None, backgroundColor = None\<rparr>]"]
          exI [of _ warn])
       (simp add: writeWarningLine_def serialize_with_EOL_nonempty)
next
  case WriteError
  then show ?thesis
    by (intro exI [of _ "map (spreadWithForeground Red) messageParts"] exI [of _ warn])
       (simp add: writeError_def)
next
  case WriteErrorLine
  then show ?thesis
    by (intro exI [of _ "map (spreadWithForeground Yellow) messageParts @
            [Seq \<lparr>text = EOL pf, foregroundColor = None, backgroundColor = None\<rparr>]"]
          exI [of _ warn])
       (simp add: writeErrorLine_def serialize_with_EOL_nonempty)
next
  case WriteVerbose
  with assms(2) show ?thesis
    by (intro exI [of _ messageParts] exI [of _ log]) (simp add: writeVerbose_def)
next
  case WriteVerboseLine
  with assms(1) show ?thesis by simp
qed

lemma twoSinks_providers: "providers twoSinks = [colorSink, plainSink]"
  by (simp add: twoSinks_def registerProvider_def Terminal_def colorSink_def plainSink_def)

lemma threeSinks_providers: "providers threeSinks = [colorSink, colorSink2, plainSink]"
  by (simp add: threeSinks_def registerProvider_def Terminal_def colorSink_def colorSink2_def
        plainSink_def)

lemma twoSinks_trace: "trace twoSinks = []"
  by (simp add: twoSinks_def registerProvider_def Terminal_def)

lemma writeWarning_twoSinks:
  "trace (writeWarning [Str ''a''] twoSinks) =
     [Serialized True,
      ProviderWrite colorSink ([CHR 0x1B] @ ''[33m'' @ ''a'' @ [CHR 0x1B] @ ''[39m'') warn,
      Serialized False,
      ProviderWrite plainSink ''a'' warn]"
  by (simp add: twoSinks_def registerProvider_def Terminal_def colorSink_def plainSink_def
        writeWarning_def writeSegmentsToProviders_def forEachCallback_def truthy_def emit_def
        Let_def spreadWithForeground_def serializeFormattableTextSegments_def pushSegment_def
        toString.simps)

section \<open>\<^verbatim>\<open>writeError\<close> on the store\<close>

lemma load_append: "validPart h part \<Longrightarrow> load (h @ ext) part = load h part"
  by (cases part) (simp_all add: nth_append)

lemma validPart_append: "validPart h part \<Longrightarrow> validPart (h @ ext) part"
  by (cases part) simp_all

lemma spreadObject_props:
  assumes "validPart h part" and "spreadObject c part h = (part', h1)"
  shows "\<exists>ext. h1 = h @ ext"
    and "validPart h1 part'"
    and "load h1 part' = spreadWithForeground c (load h part)"
  using assms
  by (cases part; auto simp: spreadObject_def allocate_def spreadWithForeground_def Let_def
        nth_append)+

lemma mapSpread_props:
  assumes "list_all (validPart h) parts" and "mapSpread c parts h = (parts', h')"
  shows "(\<exists>ext. h' = h @ ext) \<and> list_all (validPart h') parts' \<and>
         map (load h') parts' = map (spreadWithForeground c) (map (load h) parts)"
  using assms
proof (induction parts arbitrary: h parts' h')
  case Nil
  then show ?case by simp
next
  case (Cons part parts)
  obtain part1 h1 where one: "spreadObject c part h = (part1, h1)"
    by (cases "spreadObject c part h") auto
  obtain rest h2 where more: "mapSpread c parts h1 = (rest, h2)"
    by (cases "mapSpread c parts h1") auto
  from Cons.prems(2) one more have res: "parts' = part1 # rest" "h' = h2" by simp_all
  from Cons.prems(1) have v: "validPart h part" and vs: "list_all (validPart h) parts" by simp_all
  from spreadObject_props [OF v one] obtain e1 where
    e1: "h1 = h @ e1" and v1: "validPart h1 part1" and
    l1: "load h1 part1 = spreadWithForeground c (load h part)" by blast
  from vs e1 have vs1: "list_all (validPart h1) parts"
    by (simp add: list_all_iff validPart_append)
  from Cons.IH [OF vs1 more] obtain e2 where
    e2: "h2 = h1 @ e2" and v2: "list_all (validPart h2) rest" and
    l2: "map (load h2) rest = map (spreadWithForeground c) (map (load h1) parts)" by blast
  from vs e1 have same: "map (load h1) parts = map (load h) parts"
    by (simp add: list_all_iff load_append)
  from e1 e2 have "h2 = h @ (e1 @ e2)" by simp
  moreover from v1 e2 have "validPart h2 part1" by (simp add: validPart_append)
  moreover from v1 e2 l1 have "load h2 part1 = spreadWithForeground c (load h part)"
    by (simp add: load_append)
  ultimately show ?case using res v2 l2 same by auto
qed

lemma writeError_store_state:
  assumes "list_all (validPart h) messageParts"
  shows "snd (writeError_store messageParts (h, s)) = writeError (map (load h) messageParts) s"
    and "\<exists>ext. fst (writeError_store messageParts (h, s)) = h @ ext"
proof -
  obtain segments h' where m: "mapSpread Red messageParts h = (segments, h')"
    by (cases "mapSpread Red messageParts h") auto
  from mapSpread_props [OF assms m] m
  show "snd (writeError_store messageParts (h, s)) = writeError (map (load h) messageParts) s"
    and "\<exists>ext. fst (writeError_store messageParts (h, s)) = h @ ext"
    by (simp_all add: writeError_store_def writeError_def)
qed

lemma writeError_writes:
  "writes (trace (writeError messageParts s)) =
     writes (trace s) @
       map (\<lambda>p. (p,
                 serializeFormattableTextSegments
                   (map (\<lambda>part. Seq \<lparr>text = segmentText part, foregroundColor = Some Red,
                                      backgroundColor = segmentBackground part\<rparr>) messageParts)
                   (supportsColor p),
                 warn))
         (providers s)"
  by (simp add: writeError_def fanout_writes spreadWithForeground_eq [abs_def])

section \<open>The claims\<close>

text \<open>
  C1. Every public write method returns to its caller. The code does not do this for
  \<^verbatim>\<open>writeVerboseLine\<close>: the method calls itself whatever the arguments and the verbose flag
  are, so the call \<^verbatim>\<open>writeVerboseLine("x")\<close> on a terminal with one provider never returns.
  (The seven other methods return: \<open>other_operations_return\<close>.)
\<close>

theorem writeVerboseLine_never_returns:
  "call Posix WriteVerboseLine [Str ''x''] oneSink = None"
  by (simp add: writeVerboseLine_None)

text \<open>
  C2, as amended. A call of \<^verbatim>\<open>write\<close>, \<^verbatim>\<open>writeLine\<close>, \<^verbatim>\<open>writeWarning\<close>, \<^verbatim>\<open>writeWarningLine\<close>,
  \<^verbatim>\<open>writeError\<close>, \<^verbatim>\<open>writeErrorLine\<close>, or of \<^verbatim>\<open>writeVerbose\<close> with the verbose flag set, on a
  terminal with at least one provider that supports colour and at least one that does not,
  is one run of the fan-out on some segment sequence and severity. In that run every
  registered provider is written to exactly once, with the rendering for its own
  \<^verbatim>\<open>supportsColor\<close> flag; a rendering that is not the empty string is computed exactly once;
  and the renderings of the four methods that append the line ending are never empty.
\<close>

theorem fanout_once_per_capability:
  assumes "op \<noteq> WriteVerboseLine"
    and "op = WriteVerbose \<longrightarrow> verboseEnabled s"
    and "distinct (providers s)"
    and "\<exists>p\<in>set (providers s). supportsColor p"
    and "\<exists>p\<in>set (providers s). \<not> supportsColor p"
  shows "\<exists>segments severity s'.
           call pf op messageParts s = Some s' \<and>
           s' = writeSegmentsToProviders segments severity s \<and>
           (op \<in> {Write, WriteLine, WriteWarningLine, WriteErrorLine} \<longrightarrow>
              serializeFormattableTextSegments segments True \<noteq> [] \<and>
              serializeFormattableTextSegments segments False \<noteq> []) \<and>
           (serializeFormattableTextSegments segments True \<noteq> [] \<longrightarrow>
              serializations True (trace s') = serializations True (trace s) + 1) \<and>
           (serializeFormattableTextSegments segments False \<noteq> [] \<longrightarrow>
              serializations False (trace s') = serializations False (trace s) + 1) \<and>
           (\<forall>p\<in>set (providers s).
              received p (trace s') =
                received p (trace s) @
                  [(serializeFormattableTextSegments segments (supportsColor p), severity)])"
proof -
  from call_is_one_fanout [OF assms(1,2)]
  obtain segments severity where
    c: "call pf op messageParts s = Some (writeSegmentsToProviders segments severity s)" and
    n: "op \<in> {Write, WriteLine, WriteWarningLine, WriteErrorLine} \<longrightarrow>
          serializeFormattableTextSegments segments True \<noteq> [] \<and>
          serializeFormattableTextSegments segments False \<noteq> []"
    by blast
  have t: "serializeFormattableTextSegments segments True \<noteq> [] \<longrightarrow>
             serializations True (trace (writeSegmentsToProviders segments severity s)) =
               serializations True (trace s) + 1"
    using fanout_count_True [OF _ assms(4)] by blast
  have f: "serializeFormattableTextSegments segments False \<noteq> [] \<longrightarrow>
             serializations False (trace (writeSegmentsToProviders segments severity s)) =
               serializations False (trace s) + 1"
    using fanout_count_False [OF _ assms(5)] by blast
  have r: "\<forall>p\<in>set (providers s).
             received p (trace (writeSegmentsToProviders segments severity s)) =
               received p (trace s) @
                 [(serializeFormattableTextSegments segments (supportsColor p), severity)]"
    using fanout_received [OF assms(3)] by blast
  from c n t f r show ?thesis by blast
qed

text \<open>The amended C2 at \<^verbatim>\<open>writeWarning("a")\<close> on a terminal with one provider of each kind.\<close>

theorem fanout_once_per_capability_witness:
  "WriteWarning \<noteq> WriteVerboseLine \<and> WriteWarning \<noteq> WriteVerbose \<and>
   distinct (providers twoSinks) \<and>
   (\<exists>p\<in>set (providers twoSinks). supportsColor p) \<and>
   (\<exists>p\<in>set (providers twoSinks). \<not> supportsColor p) \<and>
   call Posix WriteWarning [Str ''a''] twoSinks = Some (writeWarning [Str ''a''] twoSinks) \<and>
   serializations True (trace (writeWarning [Str ''a''] twoSinks)) = 1 \<and>
   serializations False (trace (writeWarning [Str ''a''] twoSinks)) = 1 \<and>
   received colorSink (trace (writeWarning [Str ''a''] twoSinks)) =
     [([CHR 0x1B] @ ''[33m'' @ ''a'' @ [CHR 0x1B] @ ''[39m'', warn)] \<and>
   received plainSink (trace (writeWarning [Str ''a''] twoSinks)) = [(''a'', warn)]"
proof -
  have h: "WriteWarning \<noteq> WriteVerboseLine"
    "WriteWarning = WriteVerbose \<longrightarrow> verboseEnabled twoSinks"
    "distinct (providers twoSinks)"
    "\<exists>p\<in>set (providers twoSinks). supportsColor p"
    "\<exists>p\<in>set (providers twoSinks). \<not> supportsColor p"
    by (simp_all add: twoSinks_providers colorSink_def plainSink_def)
  from fanout_once_per_capability [OF h, of Posix "[Str ''a'']"]
  obtain segments severity s' where
    c: "call Posix WriteWarning [Str ''a''] twoSinks = Some s'" and
    t: "serializeFormattableTextSegments segments True \<noteq> [] \<longrightarrow>
          serializations True (trace s') = serializations True (trace twoSinks) + 1" and
    f: "serializeFormattableTextSegments segments False \<noteq> [] \<longrightarrow>
          serializations False (trace s') = serializations False (trace twoSinks) + 1" and
    r: "\<forall>p\<in>set (providers twoSinks).
          received p (trace s') =
            received p (trace twoSinks) @
              [(serializeFormattableTextSegments segments (supportsColor p), severity)]"
    by blast
  from c have s': "s' = writeWarning [Str ''a''] twoSinks" by simp
  from r have rc: "received colorSink (trace s') =
      [(serializeFormattableTextSegments segments True, severity)]"
    and rp: "received plainSink (trace s') =
      [(serializeFormattableTextSegments segments False, severity)]"
    by (simp_all add: twoSinks_providers twoSinks_trace colorSink_def plainSink_def)
  have ec: "received colorSink (trace s') =
      [([CHR 0x1B] @ ''[33m'' @ ''a'' @ [CHR 0x1B] @ ''[39m'', warn)]"
    and ep: "received plainSink (trace s') = [(''a'', warn)]"
    unfolding s' writeWarning_twoSinks by (simp_all add: colorSink_def plainSink_def)
  from rc ec have "serializeFormattableTextSegments segments True \<noteq> []" by auto
  with t have ct: "serializations True (trace s') = 1"
    by (simp add: twoSinks_trace serializations_def)
  from rp ep have "serializeFormattableTextSegments segments False \<noteq> []" by auto
  with f have cf: "serializations False (trace s') = 1"
    by (simp add: twoSinks_trace serializations_def)
  from h ct cf ec ep show ?thesis unfolding s' by simp
qed

text \<open>
  C2 as stated fails. With the verbose flag off, \<^verbatim>\<open>writeVerbose("a")\<close> on a terminal with one
  provider of each kind computes no rendering and writes to no provider. And
  \<^verbatim>\<open>writeWarning()\<close> with no message part, on a terminal with two providers that support
  colour and one that does not, computes the coloured rendering twice: it is the empty
  string, which the test \<^verbatim>\<open>withColor || ...\<close> takes for a rendering not yet computed.
\<close>

theorem fanout_once_counterexample:
  "providers twoSinks = [colorSink, plainSink] \<and> \<not> verboseEnabled twoSinks \<and>
   serializations True (trace (writeVerbose [Str ''a''] twoSinks)) = 0 \<and>
   serializations False (trace (writeVerbose [Str ''a''] twoSinks)) = 0 \<and>
   writes (trace (writeVerbose [Str ''a''] twoSinks)) = [] \<and>
   providers threeSinks = [colorSink, colorSink2, plainSink] \<and>
   trace threeSinks = [] \<and>
   trace (writeWarning [] threeSinks) =
     [Serialized True, ProviderWrite colorSink [] warn,
      Serialized True, ProviderWrite colorSink2 [] warn,
      Serialized False, ProviderWrite plainSink [] warn] \<and>
   serializations True (trace (writeWarning [] threeSinks)) = 2"
  by (simp add: twoSinks_def threeSinks_def registerProvider_def Terminal_def colorSink_def
        colorSink2_def plainSink_def writeVerbose_def writeWarning_def serializations_def
        writeSegmentsToProviders_def forEachCallback_def truthy_def emit_def serialize_Nil)

text \<open>
  C3. \<^verbatim>\<open>write\<close> appends nothing to the caller's segments. The code does not do this: it
  appends the segment \<^verbatim>\<open>{ text: EOL }\<close>, so \<^verbatim>\<open>write("a")\<close> gives the provider the text
  \<^verbatim>\<open>"a"\<close> followed by the line ending, where the rendering of the caller's segments is
  \<^verbatim>\<open>"a"\<close>. (For all arguments: \<open>write_writes\<close>.)
\<close>

theorem write_appends_line_ending:
  "writes (trace (write Posix [Str ''a''] oneSink)) = [(plainSink, ''a'' @ [CHR 0x0A], log)] \<and>
   serializeFormattableTextSegments [Str ''a''] False = ''a''"
  by (simp add: write_writes serialize_plain oneSink_def Terminal_def plainSink_def EOL_def)

text \<open>
  C4. For every string \<open>x\<close>, \<^verbatim>\<open>writeLine(x)\<close> gives each registered provider without colour
  support the string \<open>x\<close> followed by two copies of the line ending, once, at severity
  \<^verbatim>\<open>log\<close>.
\<close>

theorem writeLine_two_line_endings:
  assumes "p \<in> set (providers s)" and "\<not> supportsColor p" and "distinct (providers s)"
  shows "received p (trace (writeLine pf [Str x] s)) =
           received p (trace s) @ [(x @ EOL pf @ EOL pf, log)]"
  using assms fanout_received [OF assms(3) assms(1)]
  by (simp add: writeLine_def write_def serialize_plain)

text \<open>C4 at \<^verbatim>\<open>writeLine("x")\<close> on a POSIX system, with one provider without colour support.\<close>

theorem writeLine_two_line_endings_witness:
  "plainSink \<in> set (providers oneSink) \<and> \<not> supportsColor plainSink \<and>
   distinct (providers oneSink) \<and>
   received plainSink (trace (writeLine Posix [Str ''x''] oneSink)) =
     [(''x'' @ [CHR 0x0A] @ [CHR 0x0A], log)]"
  using writeLine_two_line_endings [of plainSink oneSink Posix "''x''"]
  by (simp add: oneSink_def Terminal_def plainSink_def EOL_def)

text \<open>
  C5. With the verbose flag off \<^verbatim>\<open>writeVerbose\<close> delivers nothing (\<open>writeVerbose_disabled\<close>);
  with the flag on it behaves exactly like \<^verbatim>\<open>write\<close>. The code does not do the second:
  with the flag on, \<^verbatim>\<open>writeVerbose("a")\<close> gives the provider \<^verbatim>\<open>"a"\<close>, and \<^verbatim>\<open>write("a")\<close> gives it
  \<^verbatim>\<open>"a"\<close> followed by the line ending.
\<close>

theorem writeVerbose_differs_from_write:
  "verboseEnabled oneSink \<and>
   writes (trace (writeVerbose [Str ''a''] oneSink)) = [(plainSink, ''a'', log)] \<and>
   writes (trace (write Posix [Str ''a''] oneSink)) = [(plainSink, ''a'' @ [CHR 0x0A], log)]"
  by (simp add: writeVerbose_enabled write_writes serialize_plain oneSink_def Terminal_def
        plainSink_def EOL_def)

text \<open>
  C6. The coloured rendering of one segment with foreground Yellow and background Blue is
  \<^verbatim>\<open>ESC[33m\<close>, \<^verbatim>\<open>ESC[44m\<close>, the text, \<^verbatim>\<open>ESC[49m\<close>, \<^verbatim>\<open>ESC[39m\<close>: the start codes foreground first,
  the reset codes in the reverse order.
\<close>

theorem yellow_on_blue:
  "serializeFormattableTextSegments
     [Seq \<lparr>text = t, foregroundColor = Some Yellow, backgroundColor = Some Blue\<rparr>] True =
   [CHR 0x1B] @ ''[33m'' @ [CHR 0x1B] @ ''[44m'' @ t @ [CHR 0x1B] @ ''[49m'' @
   [CHR 0x1B] @ ''[39m''"
  by (simp add: serializeFormattableTextSegments_def pushSegment_def toString.simps)

text \<open>
  C7. When no segment has a foreground or a background colour, the coloured and the plain
  rendering are equal, and both are the segments' texts concatenated in order.
\<close>

theorem uncolored_renderings_agree:
  assumes "list_all uncolored segments"
  shows "serializeFormattableTextSegments segments True =
           serializeFormattableTextSegments segments False \<and>
         serializeFormattableTextSegments segments False = concat (map segmentText segments)"
  using assms
  by (induction segments)
     (simp_all add: serialize_Nil serialize_Cons pushSegment_plain pushSegment_uncolored)

text \<open>C7 at a bare string followed by a record without colours.\<close>

theorem uncolored_renderings_agree_witness:
  "list_all uncolored
     [Str ''a'', Seq \<lparr>text = ''b'', foregroundColor = None, backgroundColor = None\<rparr>] \<and>
   serializeFormattableTextSegments
     [Str ''a'', Seq \<lparr>text = ''b'', foregroundColor = None, backgroundColor = None\<rparr>] True =
     ''ab'' \<and>
   serializeFormattableTextSegments
     [Str ''a'', Seq \<lparr>text = ''b'', foregroundColor = None, backgroundColor = None\<rparr>] False =
     ''ab''"
  using uncolored_renderings_agree
    [of "[Str ''a'', Seq \<lparr>text = ''b'', foregroundColor = None, backgroundColor = None\<rparr>]"]
  by simp

text \<open>
  C8. \<^verbatim>\<open>writeError\<close> leaves every object that existed before the call as it was, the
  caller's segments among them: what it hands on are new objects. Every registered provider
  is written, at severity \<^verbatim>\<open>warn\<close>, the rendering for that provider of the caller's segments,
  each replaced by a record with the same text, the same background colour and the
  foreground colour Red, whatever foreground colour it had; nothing is appended.
\<close>

theorem writeError_forces_red:
  assumes "list_all (validPart h) messageParts"
  shows "take (length h) (fst (writeError_store messageParts (h, s))) = h \<and>
         writes (trace (snd (writeError_store messageParts (h, s)))) =
           writes (trace s) @
             map (\<lambda>p. (p,
                       serializeFormattableTextSegments
                         (map (\<lambda>part. Seq \<lparr>text = segmentText (load h part),
                                            foregroundColor = Some Red,
                                            backgroundColor = segmentBackground (load h part)\<rparr>)
                            messageParts)
                         (supportsColor p),
                       warn))
               (providers s)"
proof -
  from writeError_store_state(2) [OF assms, of s]
  have "take (length h) (fst (writeError_store messageParts (h, s))) = h" by auto
  moreover from writeError_store_state(1) [OF assms, of s]
    writeError_writes [of "map (load h) messageParts" s]
  have "writes (trace (snd (writeError_store messageParts (h, s)))) =
           writes (trace s) @
             map (\<lambda>p. (p,
                       serializeFormattableTextSegments
                         (map (\<lambda>part. Seq \<lparr>text = segmentText (load h part),
                                            foregroundColor = Some Red,
                                            backgroundColor = segmentBackground (load h part)\<rparr>)
                            messageParts)
                         (supportsColor p),
                       warn))
               (providers s)"
    by (simp add: comp_def)
  ultimately show ?thesis by simp
qed

text \<open>
  C8 at \<^verbatim>\<open>writeError("a", obj)\<close>, where \<^verbatim>\<open>obj\<close> is green on blue, on a terminal with one
  provider that supports colour.
\<close>

theorem writeError_forces_red_witness:
  "list_all (validPart [greenOnBlue]) [PString ''a'', PObject 0] \<and>
   take (length [greenOnBlue])
     (fst (writeError_store [PString ''a'', PObject 0] ([greenOnBlue], Terminal colorSink False))) =
     [greenOnBlue] \<and>
   writes (trace (snd (writeError_store [PString ''a'', PObject 0]
                         ([greenOnBlue], Terminal colorSink False)))) =
     [(colorSink,
       [CHR 0x1B] @ ''[31m'' @ ''a'' @ [CHR 0x1B] @ ''[39m'' @
       [CHR 0x1B] @ ''[31m'' @ [CHR 0x1B] @ ''[44m'' @ ''b'' @ [CHR 0x1B] @ ''[49m'' @
       [CHR 0x1B] @ ''[39m'',
       warn)]"
  using writeError_forces_red
    [of "[greenOnBlue]" "[PString ''a'', PObject 0]" "Terminal colorSink False"]
  by (simp add: greenOnBlue_def Terminal_def colorSink_def serializeFormattableTextSegments_def
        pushSegment_def toString.simps)

text \<open>
  C9. \<^verbatim>\<open>writeErrorLine\<close> writes to every registered provider, at severity \<^verbatim>\<open>warn\<close>, the
  rendering for that provider of the caller's segments, each with the foreground colour
  forced to Yellow and its background colour kept, followed by one segment that holds the
  line ending.
\<close>

theorem writeErrorLine_forces_yellow:
  "writes (trace (writeErrorLine pf messageParts s)) =
     writes (trace s) @
       map (\<lambda>p. (p,
                 serializeFormattableTextSegments
                   (map (\<lambda>part. Seq \<lparr>text = segmentText part, foregroundColor = Some Yellow,
                                      backgroundColor = segmentBackground part\<rparr>) messageParts
                    @ [Seq \<lparr>text = EOL pf, foregroundColor = None, backgroundColor = None\<rparr>])
                   (supportsColor p),
                 warn))
         (providers s)"
  by (simp add: writeErrorLine_def fanout_writes spreadWithForeground_eq [abs_def])

text \<open>
  C10. \<^verbatim>\<open>write\<close>, \<^verbatim>\<open>writeLine\<close>, \<^verbatim>\<open>writeWarning\<close>, \<^verbatim>\<open>writeWarningLine\<close>, \<^verbatim>\<open>writeError\<close>,
  \<^verbatim>\<open>writeErrorLine\<close> and \<^verbatim>\<open>writeVerbose\<close> leave the registered providers and the verbose
  flag as they were, for all arguments.
\<close>

theorem write_methods_frame:
  "providers (write pf messageParts s) = providers s \<and>
   verboseEnabled (write pf messageParts s) = verboseEnabled s \<and>
   providers (writeLine pf messageParts s) = providers s \<and>
   verboseEnabled (writeLine pf messageParts s) = verboseEnabled s \<and>
   providers (writeWarning messageParts s) = providers s \<and>
   verboseEnabled (writeWarning messageParts s) = verboseEnabled s \<and>
   providers (writeWarningLine pf messageParts s) = providers s \<and>
   verboseEnabled (writeWarningLine pf messageParts s) = verboseEnabled s \<and>
   providers (writeError messageParts s) = providers s \<and>
   verboseEnabled (writeError messageParts s) = verboseEnabled s \<and>
   providers (writeErrorLine pf messageParts s) = providers s \<and>
   verboseEnabled (writeErrorLine pf messageParts s) = verboseEnabled s \<and>
   providers (writeVerbose messageParts s) = providers s \<and>
   verboseEnabled (writeVerbose messageParts s) = verboseEnabled s"
  by (simp add: write_def writeLine_def writeWarning_def writeWarningLine_def writeError_def
        writeErrorLine_def writeVerbose_def fanout_frame)

end
